theory Spec2Isabelle
  imports Complex_Main "HOL-Library.Word"
begin

section \<open>Shared data model\<close>

text \<open>
  The sources are three Go packages: the redis backend (\<open>package redis\<close>), the client
  (\<open>package client\<close>) and the schedule-activity command (\<open>package command\<close>). They share
  the types of \<open>internal/history\<close>, \<open>internal/core\<close> and \<open>internal/payload\<close>, whose
  declarations are not among the sources; those types are written here as the
  specification's data model gives them.

  Conventions: \<open>payload.Payload\<close> (a byte slice) is a \<open>string\<close>; \<open>time.Time\<close> and
  \<open>time.Duration\<close> are integers counting nanoseconds; \<open>int64\<close> is a 64-bit word; a Go
  pointer that may be \<open>nil\<close> is an \<open>option\<close>; a Go \<open>error\<close> result is an
  \<open>error option\<close> (\<open>None\<close> is \<open>nil\<close>); a \<open>panic\<close> is the value \<open>Panic\<close> of an
  outcome. Pointers to events are modelled by the events themselves, so "the same
  event" is equality of values. Tracing spans, log lines and metric counters have no
  influence on the values returned or on the events submitted and are left out.
\<close>

type_synonym Payload = string
type_synonym Time = int
type_synonym Duration = int
type_synonym Metadata = "string \<rightharpoonup> string"

text \<open>
  Go errors. \<open>ErrorNew msg\<close> is \<open>errors.New(msg)\<close>; \<open>Wrap msg err\<close> is both
  \<open>errors.Wrap(err, msg)\<close> and \<open>fmt.Errorf("msg: %w", err)\<close>; \<open>redis_Nil\<close> is go-redis's
  reply for a missing key; \<open>WRONGTYPE\<close> is the redis server's reply for a command applied
  to a key of another kind; \<open>ErrTaskAlreadyInQueue\<close> is the task queue's sentinel;
  \<open>ToError e\<close> is the Go error \<open>workflowerrors.ToError\<close> builds from the serialised
  workflow error \<open>e\<close>; \<open>External msg\<close> is an error raised by a library outside the
  repository (network, JSON, converter).
\<close>

type_synonym WorkflowError = string

datatype error =
    ErrorNew string
  | Wrap string error
  | redis_Nil
  | WRONGTYPE
  | ErrTaskAlreadyInQueue
  | ToError WorkflowError
  | External string

datatype 'a outcome = Panic string | Return 'a

datatype EventType =
    EventType_WorkflowExecutionStarted
  | EventType_WorkflowExecutionFinished
  | EventType_WorkflowExecutionCanceled
  | EventType_WorkflowExecutionTerminated
  | EventType_WorkflowExecutionContinuedAsNew
  | EventType_WorkflowTaskStarted
  | EventType_ActivityScheduled
  | EventType_ActivityCompleted
  | EventType_ActivityFailed
  | EventType_TimerScheduled
  | EventType_TimerFired
  | EventType_TimerCanceled
  | EventType_SignalReceived
  | EventType_SubWorkflowScheduled
  | EventType_SubWorkflowCompleted
  | EventType_SubWorkflowFailed
  | EventType_SubWorkflowCancellationRequested
  | EventType_SideEffectResult

text \<open>
  The attribute variants the sources build or read; \<open>OtherAttributes\<close> stands for
  every variant they never touch (including an absent attribute value).
\<close>

datatype Attributes =
    ExecutionStartedAttributes "Metadata option" string "Payload list"
  | ExecutionCompletedAttributes Payload "WorkflowError option"
  | ExecutionContinuedAsNewAttributes Payload
  | ActivityScheduledAttributes string "Payload list" "Metadata option"
  | SignalReceivedAttributes string Payload
  | OtherAttributes

record Event =
  SequenceID :: "64 word"
  ScheduleEventID :: "64 word option"
  Timestamp :: Time
  Type :: EventType
  Attributes :: Attributes
  VisibleAt :: "Time option"

text \<open>
  Modelled from the spec: \<open>history.NewPendingEvent\<close> and the event option
  \<open>history.ScheduleEventID\<close> are not among the sources. Following the data model
  (\<open>Event: (sequence_id, schedule_event_id?, timestamp, type, attributes, visible_at?)\<close>)
  a pending event carries the given timestamp, type and attributes, no sequence id yet,
  no schedule event id and no visibility stamp; the options are then applied in order,
  and \<open>ScheduleEventID id\<close> sets the schedule event id.
\<close>

type_synonym HistoryEventOption = "Event \<Rightarrow> Event"

definition history_ScheduleEventID :: "64 word \<Rightarrow> HistoryEventOption" where
  "history_ScheduleEventID scheduleEventID = (\<lambda>e. e\<lparr>ScheduleEventID := Some scheduleEventID\<rparr>)"

definition NewPendingEvent ::
  "Time \<Rightarrow> EventType \<Rightarrow> Attributes \<Rightarrow> HistoryEventOption list \<Rightarrow> Event" where
  "NewPendingEvent timestamp eventType attributes opts =
     fold (\<lambda>opt e. opt e) opts
       \<lparr>SequenceID = 0, ScheduleEventID = None, Timestamp = timestamp,
        Type = eventType, Attributes = attributes, VisibleAt = None\<rparr>"

section \<open>package command: ScheduleActivityCommand\<close>

text \<open>
  Modelled from the spec: the embedded struct \<open>command\<close> and the type \<open>CommandState\<close>
  are declared outside the sources; the data model gives a command an \<open>id\<close>, a kind
  and a state among \<open>Pending\<close>, \<open>Committed\<close>, \<open>Done\<close>. \<open>CommandResult\<close> is declared
  outside the sources as well; it is given the two fields \<open>Execute\<close> fills.
\<close>

datatype CommandState = CommandState_Pending | CommandState_Committed | CommandState_Done

record command =
  cmd_id :: "64 word"
  cmd_name :: string
  state :: CommandState

record ScheduleActivityCommand = command +
  Name :: string
  Inputs :: "Payload list"
  Metadata :: "Metadata option"

record CommandResult =
  Events :: "Event list"
  ActivityEvents :: "Event list"

definition NewScheduleActivityCommand ::
  "64 word \<Rightarrow> string \<Rightarrow> Payload list \<Rightarrow> Metadata option \<Rightarrow> ScheduleActivityCommand" where
  "NewScheduleActivityCommand id' name inputs metadata =
     \<lparr>cmd_id = id', cmd_name = ''ScheduleActivity'', state = CommandState_Pending,
      Name = name, Inputs = inputs, Metadata = metadata\<rparr>"

text \<open>
  \<open>Execute\<close> mutates the command and returns a pointer to a result or \<open>nil\<close>: the model
  returns the command after the call and the result as an option. The clock is the
  reading \<open>clock.Now()\<close> gives during the call.
\<close>

definition Execute ::
  "Time \<Rightarrow> ScheduleActivityCommand \<Rightarrow> ScheduleActivityCommand \<times> CommandResult option" where
  "Execute clock_Now c =
     (case state c of
        CommandState_Pending \<Rightarrow>
          (let c' = c\<lparr>state := CommandState_Committed\<rparr>;
               event = NewPendingEvent clock_Now EventType_ActivityScheduled
                         (ActivityScheduledAttributes (Name c') (Inputs c') (Metadata c'))
                         [history_ScheduleEventID (cmd_id c')]
           in (c', Some \<lparr>Events = [event], ActivityEvents = [event]\<rparr>))
      | _ \<Rightarrow> (c, None))"

section \<open>package redis: the redis backend\<close>

text \<open>
  Modelled from the spec: \<open>core.WorkflowInstance\<close> and the workflow state type are
  declared outside the sources. The data model gives an instance an instance id, an
  execution id and an optional parent (a reference by id), and an instance the states
  Active, Finished and ContinuedAsNew. The redis package calls the first
  \<open>backend.WorkflowStateActive\<close>, the client package \<open>core.WorkflowInstanceState...\<close>.
\<close>

record WorkflowInstance =
  InstanceID :: string
  ExecutionID :: string
  ParentInstanceID :: "string option"

datatype WorkflowInstanceState =
    WorkflowInstanceStateActive
  | WorkflowInstanceStateFinished
  | WorkflowInstanceStateContinuedAsNew

abbreviation WorkflowStateActive :: WorkflowInstanceState where
  "WorkflowStateActive \<equiv> WorkflowInstanceStateActive"

definition NewWorkflowInstance :: "string \<Rightarrow> string \<Rightarrow> WorkflowInstance" where
  "NewWorkflowInstance instanceID executionID =
     \<lparr>InstanceID = instanceID, ExecutionID = executionID, ParentInstanceID = None\<rparr>"

record WorkflowEvent =
  WorkflowInstance :: WorkflowInstance
  HistoryEvent :: Event

record instanceState =
  Instance :: "WorkflowInstance option"
  State :: WorkflowInstanceState
  CreatedAt :: Time
  CompletedAt :: "Time option"

text \<open>
  The redis server behind \<open>redis.UniversalClient\<close> (go-redis, outside the repository)
  is one keyspace whose keys hold a string or a stream; a stream is the list of its
  entries, oldest first, each a list of field-value pairs. A command can fail in
  transport: \<open>net cmd\<close> is the error the connection gives that command, if any, and a
  command that fails so leaves the store as it was. \<open>SETNX\<close> stores only under a key
  that holds nothing and reports whether it stored; \<open>GET\<close> of a missing key is
  go-redis's \<open>redis.Nil\<close> error; \<open>GET\<close> of a stream and \<open>XADD\<close> to a string are the
  server's WRONGTYPE error.
\<close>

datatype redis_value = RString string | RStream "(string \<times> string) list list"

type_synonym UniversalClient = "string \<rightharpoonup> redis_value"

datatype redis_cmd = CmdSetNX | CmdGet | CmdXAdd

definition SetNX ::
  "(redis_cmd \<Rightarrow> error option) \<Rightarrow> UniversalClient \<Rightarrow> string \<Rightarrow> string
     \<Rightarrow> (error + bool) \<times> UniversalClient" where
  "SetNX net db key v =
     (case net CmdSetNX of
        Some err \<Rightarrow> (Inl err, db)
      | None \<Rightarrow>
          (case db key of
             None \<Rightarrow> (Inr True, db(key \<mapsto> RString v))
           | Some _ \<Rightarrow> (Inr False, db)))"

definition Get ::
  "(redis_cmd \<Rightarrow> error option) \<Rightarrow> UniversalClient \<Rightarrow> string \<Rightarrow> error + string" where
  "Get net db key =
     (case net CmdGet of
        Some err \<Rightarrow> Inl err
      | None \<Rightarrow>
          (case db key of
             None \<Rightarrow> Inl redis_Nil
           | Some (RString v) \<Rightarrow> Inr v
           | Some (RStream _) \<Rightarrow> Inl WRONGTYPE))"

definition XAdd ::
  "(redis_cmd \<Rightarrow> error option) \<Rightarrow> UniversalClient \<Rightarrow> string \<Rightarrow> (string \<times> string) list
     \<Rightarrow> error option \<times> UniversalClient" where
  "XAdd net db key values =
     (case net CmdXAdd of
        Some err \<Rightarrow> (Some err, db)
      | None \<Rightarrow>
          (case db key of
             None \<Rightarrow> (None, db(key \<mapsto> RStream [values]))
           | Some (RStream entries) \<Rightarrow> (None, db(key \<mapsto> RStream (entries @ [values])))
           | Some (RString _) \<Rightarrow> (Some WRONGTYPE, db)))"

text \<open>
  What the redis package takes from outside the sources is a parameter: the key
  functions \<open>instanceKey\<close> and \<open>pendingEventsKey\<close>, \<open>json.Marshal\<close> and
  \<open>json.Unmarshal\<close> at the types they are used at, the reading of \<open>time.Now()\<close>, the
  connection's faults, and the task queue's \<open>Enqueue\<close> on a queue of any type \<open>'q\<close>.
\<close>

record 'q redis_env =
  instanceKey :: "string \<Rightarrow> string"
  pendingEventsKey :: "string \<Rightarrow> string"
  json_Marshal_instanceState :: "instanceState \<Rightarrow> error + string"
  json_Unmarshal_instanceState :: "string \<Rightarrow> error + instanceState"
  json_Marshal_Event :: "Event \<Rightarrow> error + string"
  time_Now :: Time
  net :: "redis_cmd \<Rightarrow> error option"
  Enqueue :: "string \<Rightarrow> 'q \<Rightarrow> error option \<times> 'q"

record 'q redisBackend =
  rdb :: UniversalClient
  workflowQueue :: 'q

definition createInstance ::
  "'q redis_env \<Rightarrow> UniversalClient \<Rightarrow> WorkflowInstance \<Rightarrow> bool
     \<Rightarrow> error option \<times> UniversalClient" where
  "createInstance env db instance ignoreDuplicate =
     (let key = instanceKey env (InstanceID instance) in
      case json_Marshal_instanceState env
             \<lparr>Instance = Some instance, State = WorkflowStateActive,
              CreatedAt = time_Now env, CompletedAt = None\<rparr> of
        Inl err \<Rightarrow> (Some (Wrap ''could not marshal instance state'' err), db)
      | Inr b \<Rightarrow>
          (case SetNX (net env) db key b of
             (Inl err, db') \<Rightarrow> (Some (Wrap ''could not store instance'' err), db')
           | (Inr ok, db') \<Rightarrow>
               if \<not> ignoreDuplicate \<and> \<not> ok
               then (Some (ErrorNew ''workflow instance already exists''), db')
               else (None, db')))"

definition readInstance ::
  "'q redis_env \<Rightarrow> UniversalClient \<Rightarrow> string \<Rightarrow> error + instanceState" where
  "readInstance env db instanceID =
     (let key = instanceKey env instanceID in
      case Get (net env) db key of
        Inl err \<Rightarrow> Inl (Wrap ''could not read instance'' err)
      | Inr val \<Rightarrow>
          (case json_Unmarshal_instanceState env val of
             Inl err \<Rightarrow> Inl (Wrap ''could not unmarshal instance state'' err)
           | Inr st \<Rightarrow> Inr st))"

definition redisBackend_CreateWorkflowInstance ::
  "'q redis_env \<Rightarrow> 'q redisBackend \<Rightarrow> WorkflowEvent \<Rightarrow> error option \<times> 'q redisBackend" where
  "redisBackend_CreateWorkflowInstance env rb event =
     (case createInstance env (rdb rb) (WorkflowInstance event) False of
        (Some err, db1) \<Rightarrow> (Some err, rb\<lparr>rdb := db1\<rparr>)
      | (None, db1) \<Rightarrow>
          (case json_Marshal_Event env (HistoryEvent event) of
             Inl err \<Rightarrow> (Some err, rb\<lparr>rdb := db1\<rparr>)
           | Inr eventData \<Rightarrow>
               (case XAdd (net env) db1
                       (pendingEventsKey env (InstanceID (WorkflowInstance event)))
                       [(''event'', eventData)] of
                  (Some err, db2) \<Rightarrow>
                    (Some (Wrap ''could not create event stream'' err), rb\<lparr>rdb := db2\<rparr>)
                | (None, db2) \<Rightarrow>
                    (case Enqueue env (InstanceID (WorkflowInstance event)) (workflowQueue rb) of
                       (Some err, q') \<Rightarrow>
                         if err \<noteq> ErrTaskAlreadyInQueue
                         then (Some (Wrap ''could not queue workflow task'' err),
                               \<lparr>rdb = db2, workflowQueue = q'\<rparr>)
                         else (None, \<lparr>rdb = db2, workflowQueue = q'\<rparr>)
                     | (None, q') \<Rightarrow> (None, \<lparr>rdb = db2, workflowQueue = q'\<rparr>)))))"

definition redisBackend_GetWorkflowInstanceState ::
  "'q redis_env \<Rightarrow> 'q redisBackend \<Rightarrow> WorkflowInstance
     \<Rightarrow> WorkflowInstanceState \<times> error option" where
  "redisBackend_GetWorkflowInstanceState env rb instance =
     (case readInstance env (rdb rb) (InstanceID instance) of
        Inl err \<Rightarrow> (WorkflowStateActive, Some err)
      | Inr instanceState \<Rightarrow> (State instanceState, None))"

text \<open>
  The body of the redis backend's \<open>CancelWorkflowInstance\<close> is the single statement
  \<open>panic("unimplemented")\<close>: it returns nothing and leaves the store untouched.
\<close>

definition redisBackend_CancelWorkflowInstance ::
  "'q redisBackend \<Rightarrow> WorkflowInstance \<Rightarrow> (error option \<times> 'q redisBackend) outcome" where
  "redisBackend_CancelWorkflowInstance rb instance = Panic ''unimplemented''"

section \<open>package client\<close>

text \<open>
  \<open>backend.Backend\<close> is an interface declared outside the sources: the client is
  written against any implementation. An implementation is a record of its methods over
  a store of any type \<open>'s\<close>; a method that writes returns the store it leaves. \<open>'v\<close> is
  the type of the Go values handed to and returned by the converter. Only
  \<open>CancelWorkflowInstance\<close> is given an outcome that can be a panic, since it is the one
  method an implementation among the sources ends by \<open>panic\<close>.
\<close>

record ('s, 'v) Backend =
  Converter_To :: "'v \<Rightarrow> error + Payload"
  Converter_From :: "Payload \<Rightarrow> error + 'v"
  ContextPropagators :: "(Metadata \<Rightarrow> Metadata) list"
  Backend_CreateWorkflowInstance ::
    "WorkflowInstance \<Rightarrow> Event \<Rightarrow> 's \<Rightarrow> error option \<times> 's"
  Backend_CancelWorkflowInstance ::
    "WorkflowInstance \<Rightarrow> Event \<Rightarrow> 's \<Rightarrow> (error option \<times> 's) outcome"
  Backend_SignalWorkflow :: "string \<Rightarrow> Event \<Rightarrow> 's \<Rightarrow> error option \<times> 's"
  Backend_GetWorkflowInstanceState ::
    "WorkflowInstance \<Rightarrow> 's \<Rightarrow> WorkflowInstanceState \<times> error option"
  Backend_GetWorkflowInstanceHistory ::
    "WorkflowInstance \<Rightarrow> 64 word option \<Rightarrow> 's \<Rightarrow> error + Event list"

text \<open>
  The client holds its backend and a clock; \<open>clock\<close> is the reading \<open>c.clock.Now()\<close>
  gives during the call modelled.
\<close>

record ('s, 'v) client =
  backend :: "('s, 'v) Backend"
  clock :: Time

record WorkflowInstanceOptions =
  options_InstanceID :: string

definition ErrWorkflowCanceled :: error where
  "ErrWorkflowCanceled = ErrorNew ''workflow canceled''"

definition ErrWorkflowTerminated :: error where
  "ErrWorkflowTerminated = ErrorNew ''workflow terminated''"

text \<open>
  What \<open>CreateWorkflowInstance\<close> takes from outside the sources is a parameter:
  \<open>args.ParamsMatch\<close>, \<open>args.ArgsToInputs\<close>, \<open>fn.Name\<close> on workflows of any type \<open>'w\<close>,
  and the string \<open>uuid.NewString()\<close> returns during the call.
\<close>

record ('w, 'v) create_env =
  ParamsMatch :: "'w \<Rightarrow> 'v list \<Rightarrow> error option"
  ArgsToInputs :: "('v \<Rightarrow> error + Payload) \<Rightarrow> 'v list \<Rightarrow> error + Payload list"
  fn_Name :: "'w \<Rightarrow> string"
  uuid_NewString :: string

definition client_CreateWorkflowInstance ::
  "('w, 'v) create_env \<Rightarrow> ('s, 'v) client \<Rightarrow> WorkflowInstanceOptions \<Rightarrow> 'w \<Rightarrow> 'v list \<Rightarrow> 's
     \<Rightarrow> (error + WorkflowInstance) \<times> 's" where
  "client_CreateWorkflowInstance env c options wflow args s =
     (case ParamsMatch env wflow args of
        Some err \<Rightarrow> (Inl err, s)
      | None \<Rightarrow>
          (case ArgsToInputs env (Converter_To (backend c)) args of
             Inl err \<Rightarrow> (Inl (Wrap ''converting arguments'' err), s)
           | Inr inputs \<Rightarrow>
               (let wfi = NewWorkflowInstance (options_InstanceID options) (uuid_NewString env);
                    metadata = fold (\<lambda>propagator m. propagator m)
                                 (ContextPropagators (backend c)) Map.empty;
                    workflowName = fn_Name env wflow;
                    startedEvent = NewPendingEvent (clock c) EventType_WorkflowExecutionStarted
                                     (ExecutionStartedAttributes (Some metadata) workflowName inputs)
                                     []
                in case Backend_CreateWorkflowInstance (backend c) wfi startedEvent s of
                     (Some err, s') \<Rightarrow> (Inl (Wrap ''creating workflow instance'' err), s')
                   | (None, s') \<Rightarrow> (Inr wfi, s'))))"

text \<open>
  Modelled from the spec: \<open>history.NewWorkflowCancellationEvent\<close> is not among the
  sources; it is the pending event of type WorkflowExecutionCanceled stamped with the
  given time. The client stamps it with \<open>time.Now()\<close>, the parameter \<open>now\<close>.
\<close>

definition NewWorkflowCancellationEvent :: "Time \<Rightarrow> Event" where
  "NewWorkflowCancellationEvent timestamp =
     NewPendingEvent timestamp EventType_WorkflowExecutionCanceled OtherAttributes []"

definition client_CancelWorkflowInstance ::
  "Time \<Rightarrow> ('s, 'v) client \<Rightarrow> WorkflowInstance \<Rightarrow> 's \<Rightarrow> (error option \<times> 's) outcome" where
  "client_CancelWorkflowInstance now c instance s =
     (let cancellationEvent = NewWorkflowCancellationEvent now
      in Backend_CancelWorkflowInstance (backend c) instance cancellationEvent s)"

definition client_SignalWorkflow ::
  "('s, 'v) client \<Rightarrow> string \<Rightarrow> string \<Rightarrow> 'v \<Rightarrow> 's \<Rightarrow> error option \<times> 's" where
  "client_SignalWorkflow c instanceID name arg s =
     (case Converter_To (backend c) arg of
        Inl err \<Rightarrow> (Some (Wrap ''converting arguments'' err), s)
      | Inr input \<Rightarrow>
          (let signalEvent = NewPendingEvent (clock c) EventType_SignalReceived
                               (SignalReceivedAttributes name input) []
           in case Backend_SignalWorkflow (backend c) instanceID signalEvent s of
                (Some err, s') \<Rightarrow> (Some err, s')
              | (None, s') \<Rightarrow> (None, s')))"

text \<open>
  \<open>WaitForWorkflowInstance\<close> fills a \<open>backoff.ExponentialBackOff\<close> and ranges over the
  channel of the ticker made from it. The backoff library is outside the repository and
  its ticker runs on real time, so the ticker is a parameter: \<open>ticker b\<close> is the list,
  in order, of the stores the backend is in at each tick the ticker made from \<open>b\<close>
  delivers before it closes its channel. The multiplier and the randomization factor
  are the exact values of the Go constants \<open>1.5\<close> and \<open>0.5\<close>. The fields \<open>Stop\<close> and
  \<open>Clock\<close> of the configuration are left out.
\<close>

record ExponentialBackOff =
  InitialInterval :: Duration
  MaxInterval :: Duration
  Multiplier :: rat
  RandomizationFactor :: rat
  MaxElapsedTime :: Duration

definition Millisecond :: Duration where
  "Millisecond = 1000000"

definition Second :: Duration where
  "Second = 1000000000"

text \<open>The body of the loop \<open>for range ticker.C\<close>, one tick after the other.\<close>

fun poll ::
  "('s, 'v) Backend \<Rightarrow> WorkflowInstance \<Rightarrow> 's list \<Rightarrow> error option" where
  "poll b instance [] = Some (ErrorNew ''workflow did not finish in specified timeout'')"
| "poll b instance (s # ticks) =
     (case Backend_GetWorkflowInstanceState b instance s of
        (st, Some err) \<Rightarrow> Some (Wrap ''getting workflow state'' err)
      | (st, None) \<Rightarrow>
          if st = WorkflowInstanceStateFinished \<or> st = WorkflowInstanceStateContinuedAsNew
          then None
          else poll b instance ticks)"

definition client_WaitForWorkflowInstance ::
  "(ExponentialBackOff \<Rightarrow> 's list) \<Rightarrow> ('s, 'v) client \<Rightarrow> WorkflowInstance \<Rightarrow> Duration
     \<Rightarrow> error option" where
  "client_WaitForWorkflowInstance ticker c instance timeout0 =
     (let timeout = (if timeout0 = 0 then Second * 20 else timeout0);
          b = \<lparr>InitialInterval = Millisecond * 1, MaxInterval = Second * 1,
               Multiplier = 3 / 2, RandomizationFactor = 1 / 2,
               MaxElapsedTime = timeout\<rparr>
      in poll (backend c) instance (ticker b))"

text \<open>
  The loop of \<open>GetWorkflowResult\<close> over the history, last event first: \<open>scan\<close> takes the
  history reversed. \<open>zero\<close> is \<open>*new(T)\<close>, the zero value of the result type. A type
  assertion on the attributes of an event that carries another variant panics.
\<close>

fun scan ::
  "(Payload \<Rightarrow> error + 'v) \<Rightarrow> 'v \<Rightarrow> Event list \<Rightarrow> ('v \<times> error option) outcome" where
  "scan From zero [] =
     Return (zero, Some (ErrorNew ''workflow finished, but could not find result event''))"
| "scan From zero (event # earlier) =
     (case Type event of
        EventType_WorkflowExecutionFinished \<Rightarrow>
          (case Attributes event of
             ExecutionCompletedAttributes result err \<Rightarrow>
               (case err of
                  Some e \<Rightarrow> Return (zero, Some (ToError e))
                | None \<Rightarrow>
                    (case From result of
                       Inl cerr \<Rightarrow> Return (zero, Some (Wrap ''converting result'' cerr))
                     | Inr r \<Rightarrow> Return (r, None)))
           | _ \<Rightarrow> Panic ''interface conversion'')
      | EventType_WorkflowExecutionContinuedAsNew \<Rightarrow>
          (case Attributes event of
             ExecutionContinuedAsNewAttributes result \<Rightarrow>
               (case From result of
                  Inl cerr \<Rightarrow> Return (zero, Some (Wrap ''converting result'' cerr))
                | Inr r \<Rightarrow> Return (r, None))
           | _ \<Rightarrow> Panic ''interface conversion'')
      | EventType_WorkflowExecutionCanceled \<Rightarrow> Return (zero, Some ErrWorkflowCanceled)
      | EventType_WorkflowExecutionTerminated \<Rightarrow> Return (zero, Some ErrWorkflowTerminated)
      | _ \<Rightarrow> scan From zero earlier)"

text \<open>
  \<open>GetWorkflowResult\<close> waits, then reads the history from the backend, whose store is
  by then \<open>s\<close>, then scans it. Its first statement asserts that the \<open>Client\<close> it is
  given is the struct \<open>client\<close>; here it is given that struct.
\<close>

definition GetWorkflowResult ::
  "(ExponentialBackOff \<Rightarrow> 's list) \<Rightarrow> 'v \<Rightarrow> ('s, 'v) client \<Rightarrow> WorkflowInstance \<Rightarrow> Duration
     \<Rightarrow> 's \<Rightarrow> ('v \<times> error option) outcome" where
  "GetWorkflowResult ticker zero c instance timeout s =
     (case client_WaitForWorkflowInstance ticker c instance timeout of
        Some err \<Rightarrow> Return (zero, Some (Wrap ''workflow did not finish in time'' err))
      | None \<Rightarrow>
          (case Backend_GetWorkflowInstanceHistory (backend c) instance None s of
             Inl err \<Rightarrow> Return (zero, Some (Wrap ''getting workflow history'' err))
           | Inr h \<Rightarrow> scan (Converter_From (backend c)) zero (rev h)))"

text \<open>
  Vocabulary for what one poll of \<open>WaitForWorkflowInstance\<close> sees in the store \<open>s\<close>:
  the backend answers without error a state that is neither Finished nor
  ContinuedAsNew; it answers without error Finished or ContinuedAsNew; it answers with
  the error \<open>err\<close>.
\<close>

definition observes_running :: "('s, 'v) Backend \<Rightarrow> WorkflowInstance \<Rightarrow> 's \<Rightarrow> bool" where
  "observes_running b instance s =
     (snd (Backend_GetWorkflowInstanceState b instance s) = None
      \<and> fst (Backend_GetWorkflowInstanceState b instance s) \<noteq> WorkflowInstanceStateFinished
      \<and> fst (Backend_GetWorkflowInstanceState b instance s) \<noteq> WorkflowInstanceStateContinuedAsNew)"

definition observes_final :: "('s, 'v) Backend \<Rightarrow> WorkflowInstance \<Rightarrow> 's \<Rightarrow> bool" where
  "observes_final b instance s =
     (snd (Backend_GetWorkflowInstanceState b instance s) = None
      \<and> (fst (Backend_GetWorkflowInstanceState b instance s) = WorkflowInstanceStateFinished
         \<or> fst (Backend_GetWorkflowInstanceState b instance s) = WorkflowInstanceStateContinuedAsNew))"

definition poll_fails :: "('s, 'v) Backend \<Rightarrow> WorkflowInstance \<Rightarrow> 's \<Rightarrow> error \<Rightarrow> bool" where
  "poll_fails b instance s err =
     (snd (Backend_GetWorkflowInstanceState b instance s) = Some err)"

text \<open>
  Vocabulary for the history \<open>GetWorkflowResult\<close> scans: the four event types on which
  its loop stops.
\<close>

definition is_result_type :: "EventType \<Rightarrow> bool" where
  "is_result_type t =
     (t = EventType_WorkflowExecutionFinished \<or> t = EventType_WorkflowExecutionContinuedAsNew
      \<or> t = EventType_WorkflowExecutionCanceled \<or> t = EventType_WorkflowExecutionTerminated)"

section \<open>Concrete inputs\<close>

text \<open>
  An instance, a redis environment whose connection never fails and whose keys are
  prefixed instance ids, an empty store, and a store in which the instance id
  \<open>order-1\<close> is taken. The stored text is not valid JSON for \<open>json.Unmarshal\<close>.
\<close>

definition instance0 :: WorkflowInstance where
  "instance0 = \<lparr>InstanceID = ''order-1'', ExecutionID = ''e-1'', ParentInstanceID = None\<rparr>"

definition env0 :: "string list redis_env" where
  "env0 = \<lparr>instanceKey = (\<lambda>i. ''instance:'' @ i),
            pendingEventsKey = (\<lambda>i. ''pending-events:'' @ i),
            json_Marshal_instanceState = (\<lambda>st. Inr ''{state}''),
            json_Unmarshal_instanceState = (\<lambda>s. Inl (External ''invalid character'')),
            json_Marshal_Event = (\<lambda>e. Inr ''{event}''),
            time_Now = 0,
            net = (\<lambda>cmd. None),
            Enqueue = (\<lambda>i q. (None, q @ [i]))\<rparr>"

definition rb_empty :: "string list redisBackend" where
  "rb_empty = \<lparr>rdb = Map.empty, workflowQueue = []\<rparr>"

definition rb_taken :: "string list redisBackend" where
  "rb_taken = \<lparr>rdb = [''instance:order-1'' \<mapsto> RString ''{state}''], workflowQueue = []\<rparr>"

definition event0 :: WorkflowEvent where
  "event0 = \<lparr>WorkflowInstance = instance0,
              HistoryEvent = NewPendingEvent 5 EventType_WorkflowExecutionStarted
                               (ExecutionStartedAttributes None ''Workflow1'' []) []\<rparr>"

text \<open>
  A backend that records the calls that write: its store is the list of the calls made
  so far. Its converter refuses the value \<open>chan\<close> and prefixes every other value; its
  reads answer Active and an empty history. \<open>client0\<close> is a client over it whose clock
  reads 42.
\<close>

datatype call =
    CreateCall WorkflowInstance Event
  | CancelCall WorkflowInstance Event
  | SignalCall string Event

definition recorder :: "(call list, string) Backend" where
  "recorder =
     \<lparr>Converter_To = (\<lambda>v. if v = ''chan'' then Inl (External ''unsupported type'')
                            else Inr (''json:'' @ v)),
      Converter_From = (\<lambda>p. if take 5 p = ''json:'' then Inr (drop 5 p)
                              else Inl (External ''invalid payload'')),
      ContextPropagators = [],
      Backend_CreateWorkflowInstance = (\<lambda>i e s. (None, s @ [CreateCall i e])),
      Backend_CancelWorkflowInstance = (\<lambda>i e s. Return (None, s @ [CancelCall i e])),
      Backend_SignalWorkflow = (\<lambda>i e s. (None, s @ [SignalCall i e])),
      Backend_GetWorkflowInstanceState = (\<lambda>i s. (WorkflowInstanceStateActive, None)),
      Backend_GetWorkflowInstanceHistory = (\<lambda>i l s. Inr [])\<rparr>"

definition client0 :: "(call list, string) client" where
  "client0 = \<lparr>backend = recorder, clock = 42\<rparr>"

text \<open>
  A concrete \<open>ArgsToInputs\<close>: the arguments converted one after the other, stopping at
  the first that fails.
\<close>

fun convert_all :: "('v \<Rightarrow> error + Payload) \<Rightarrow> 'v list \<Rightarrow> error + Payload list" where
  "convert_all to [] = Inr []"
| "convert_all to (a # as) =
     (case to a of
        Inl err \<Rightarrow> Inl (Wrap ''converting input'' err)
      | Inr p \<Rightarrow> (case convert_all to as of Inl err \<Rightarrow> Inl err | Inr ps \<Rightarrow> Inr (p # ps)))"

definition cenv0 :: "(string, string) create_env" where
  "cenv0 =
     \<lparr>ParamsMatch = (\<lambda>w args. if length args = 2 then None
                               else Some (ErrorNew ''mismatched argument count'')),
      ArgsToInputs = convert_all,
      fn_Name = (\<lambda>w. w),
      uuid_NewString = ''3f2c''\<rparr>"

text \<open>
  A backend whose store is a snapshot of its answers: the answer to
  \<open>GetWorkflowInstanceState\<close> and the answer to \<open>GetWorkflowInstanceHistory\<close>. Its writes
  change nothing; its converter is the recording backend's. \<open>client1\<close> is a client over
  it. Three snapshots: the instance is running, it is finished, the backend cannot be
  reached. Four tickers, each delivering the same ticks whatever the configuration.
\<close>

type_synonym snapshot = "(WorkflowInstanceState \<times> error option) \<times> (error + Event list)"

definition snapshots :: "(snapshot, string) Backend" where
  "snapshots =
     \<lparr>Converter_To = Converter_To recorder,
      Converter_From = Converter_From recorder,
      ContextPropagators = [],
      Backend_CreateWorkflowInstance = (\<lambda>i e s. (None, s)),
      Backend_CancelWorkflowInstance = (\<lambda>i e s. Return (None, s)),
      Backend_SignalWorkflow = (\<lambda>i e s. (None, s)),
      Backend_GetWorkflowInstanceState = (\<lambda>i s. fst s),
      Backend_GetWorkflowInstanceHistory = (\<lambda>i l s. snd s)\<rparr>"

definition client1 :: "(snapshot, string) client" where
  "client1 = \<lparr>backend = snapshots, clock = 42\<rparr>"

definition running0 :: snapshot where
  "running0 = ((WorkflowInstanceStateActive, None), Inr [])"

definition finished0 :: snapshot where
  "finished0 = ((WorkflowInstanceStateFinished, None), Inr [])"

definition failing0 :: snapshot where
  "failing0 = ((WorkflowInstanceStateActive, Some (External ''connection refused'')), Inr [])"

definition ticks_finishing :: "ExponentialBackOff \<Rightarrow> snapshot list" where
  "ticks_finishing b = [running0, finished0]"

definition ticks_failing :: "ExponentialBackOff \<Rightarrow> snapshot list" where
  "ticks_failing b = [running0, failing0, finished0]"

definition ticks_running :: "ExponentialBackOff \<Rightarrow> snapshot list" where
  "ticks_running b = [running0, running0]"

definition ticks_unreachable :: "ExponentialBackOff \<Rightarrow> snapshot list" where
  "ticks_unreachable b = [failing0]"

text \<open>
  A history without a result event, events of each result kind, a task event that may
  follow them, and the snapshot of a finished instance with a given history.
\<close>

definition history0 :: "Event list" where
  "history0 =
     [NewPendingEvent 1 EventType_WorkflowExecutionStarted
        (ExecutionStartedAttributes None ''Workflow1'' []) [],
      NewPendingEvent 2 EventType_WorkflowTaskStarted OtherAttributes []]"

definition ev_canceled :: Event where
  "ev_canceled = NewPendingEvent 3 EventType_WorkflowExecutionCanceled OtherAttributes []"

definition ev_terminated :: Event where
  "ev_terminated = NewPendingEvent 3 EventType_WorkflowExecutionTerminated OtherAttributes []"

definition ev_failed :: Event where
  "ev_failed = NewPendingEvent 3 EventType_WorkflowExecutionFinished
                 (ExecutionCompletedAttributes [] (Some ''boom'')) []"

definition ev_finished :: Event where
  "ev_finished = NewPendingEvent 3 EventType_WorkflowExecutionFinished
                   (ExecutionCompletedAttributes ''json:5'' None) []"

definition ev_task :: Event where
  "ev_task = NewPendingEvent 4 EventType_WorkflowTaskStarted OtherAttributes []"

definition store_with :: "Event list \<Rightarrow> snapshot" where
  "store_with h = ((WorkflowInstanceStateFinished, None), Inr h)"

section \<open>Theorems: package command\<close>

lemma Execute_Pending:
  "state c = CommandState_Pending \<Longrightarrow>
   Execute t c =
     (c\<lparr>state := CommandState_Committed\<rparr>,
      Some \<lparr>Events =
              [\<lparr>SequenceID = 0, ScheduleEventID = Some (cmd_id c), Timestamp = t,
                Type = EventType_ActivityScheduled,
                Attributes = ActivityScheduledAttributes (Name c) (Inputs c) (Metadata c),
                VisibleAt = None\<rparr>],
            ActivityEvents =
              [\<lparr>SequenceID = 0, ScheduleEventID = Some (cmd_id c), Timestamp = t,
                Type = EventType_ActivityScheduled,
                Attributes = ActivityScheduledAttributes (Name c) (Inputs c) (Metadata c),
                VisibleAt = None\<rparr>]\<rparr>)"
  by (simp add: Execute_def NewPendingEvent_def history_ScheduleEventID_def Let_def)

lemma Execute_not_Pending:
  "state c \<noteq> CommandState_Pending \<Longrightarrow> Execute t c = (c, None)"
  by (cases "state c") (simp_all add: Execute_def)

text \<open>
  C2. Executing a ScheduleActivity command that is in state Pending returns a result
  with exactly one scheduling event, of type ActivityScheduled, whose attributes are the
  command's name, inputs and metadata and whose schedule event id is the command's id;
  the result's list of activity messages holds exactly one entry, that same event.
\<close>

theorem Execute_pending_one_event_one_message:
  assumes "state c = CommandState_Pending"
  shows "\<exists>event. snd (Execute t c) = Some \<lparr>Events = [event], ActivityEvents = [event]\<rparr>
           \<and> Type event = EventType_ActivityScheduled
           \<and> Attributes event = ActivityScheduledAttributes (Name c) (Inputs c) (Metadata c)
           \<and> ScheduleEventID event = Some (cmd_id c)
           \<and> Timestamp event = t"
  using assms by (simp add: Execute_Pending)

theorem Execute_pending_one_event_one_message_witness:
  "state (NewScheduleActivityCommand 7 ''Add'' [''2'', ''3''] None) = CommandState_Pending
   \<and> (\<exists>event. snd (Execute 1000 (NewScheduleActivityCommand 7 ''Add'' [''2'', ''3''] None))
                 = Some \<lparr>Events = [event], ActivityEvents = [event]\<rparr>
        \<and> Type event = EventType_ActivityScheduled
        \<and> Attributes event = ActivityScheduledAttributes ''Add'' [''2'', ''3''] None
        \<and> ScheduleEventID event = Some 7
        \<and> Timestamp event = 1000)"
proof -
  have p: "state (NewScheduleActivityCommand 7 ''Add'' [''2'', ''3''] None) = CommandState_Pending"
    by (simp add: NewScheduleActivityCommand_def)
  show ?thesis
    using p Execute_pending_one_event_one_message
              [OF p, of 1000]
    by (simp add: NewScheduleActivityCommand_def)
qed

text \<open>
  C3. Execute returns a result exactly when the command is in state Pending, and then
  leaves it in state Committed; a further Execute on the command it leaves behind returns
  nil and changes nothing, whatever the clock reads, so that running Execute twice
  yields the events and the final command of running it once.
\<close>

theorem Execute_at_most_once:
  "(snd (Execute t c) \<noteq> None \<longleftrightarrow> state c = CommandState_Pending)
   \<and> (state c = CommandState_Pending \<longrightarrow> state (fst (Execute t c)) = CommandState_Committed)
   \<and> (state c \<noteq> CommandState_Pending \<longrightarrow> fst (Execute t c) = c)
   \<and> Execute t' (fst (Execute t c)) = (fst (Execute t c), None)"
proof (cases "state c = CommandState_Pending")
  case True
  then show ?thesis
    by (simp add: Execute_Pending Execute_not_Pending)
next
  case False
  then show ?thesis
    by (simp add: Execute_not_Pending)
qed

theorem Execute_at_most_once_witness:
  "state (NewScheduleActivityCommand 7 ''Add'' [''2'', ''3''] None) = CommandState_Pending
   \<and> snd (Execute 1000 (NewScheduleActivityCommand 7 ''Add'' [''2'', ''3''] None)) \<noteq> None
   \<and> state (fst (Execute 1000 (NewScheduleActivityCommand 7 ''Add'' [''2'', ''3''] None)))
       = CommandState_Committed
   \<and> Execute 2000 (fst (Execute 1000 (NewScheduleActivityCommand 7 ''Add'' [''2'', ''3''] None)))
       = (fst (Execute 1000 (NewScheduleActivityCommand 7 ''Add'' [''2'', ''3''] None)), None)
   \<and> state (fst (Execute 1000 (NewScheduleActivityCommand 7 ''Add'' [''2'', ''3''] None)))
       \<noteq> CommandState_Pending
   \<and> fst (Execute 2000 (fst (Execute 1000 (NewScheduleActivityCommand 7 ''Add'' [''2'', ''3''] None))))
       = fst (Execute 1000 (NewScheduleActivityCommand 7 ''Add'' [''2'', ''3''] None))"
proof -
  have p: "state (NewScheduleActivityCommand 7 ''Add'' [''2'', ''3''] None) = CommandState_Pending"
    by (simp add: NewScheduleActivityCommand_def)
  show ?thesis
    using p
      Execute_at_most_once
        [of 1000 "NewScheduleActivityCommand 7 ''Add'' [''2'', ''3''] None" 2000]
      Execute_at_most_once
        [of 2000 "fst (Execute 1000 (NewScheduleActivityCommand 7 ''Add'' [''2'', ''3''] None))" 2000]
    by simp
qed

section \<open>Theorems: package redis\<close>

lemma createInstance_failure_keeps_store:
  "createInstance env db instance ign = (Some err, db') \<Longrightarrow> db' = db"
  by (auto simp: createInstance_def SetNX_def Let_def
           split: sum.splits option.splits if_splits prod.splits)

lemma createInstance_duplicate_result:
  assumes "db (instanceKey env (InstanceID instance)) = Some v"
    and "json_Marshal_instanceState env
           \<lparr>Instance = Some instance, State = WorkflowStateActive,
            CreatedAt = time_Now env, CompletedAt = None\<rparr> = Inr b"
    and "net env CmdSetNX = None"
  shows "createInstance env db instance ign =
           (if ign then None else Some (ErrorNew ''workflow instance already exists''), db)"
  using assms by (simp add: createInstance_def SetNX_def Let_def)

lemma CreateWorkflowInstance_failure:
  assumes "createInstance env (rdb rb) (WorkflowInstance event) False = (Some err, db')"
  shows "redisBackend_CreateWorkflowInstance env rb event = (Some err, rb)"
proof -
  have "db' = rdb rb" using assms by (rule createInstance_failure_keeps_store)
  with assms show ?thesis by (simp add: redisBackend_CreateWorkflowInstance_def)
qed

text \<open>
  C5. When the key of the instance id already holds a value (and the state marshals and
  the connection carries the command), \<open>createInstance\<close> with duplicate-ignoring off
  fails with "workflow instance already exists" and with duplicate-ignoring on succeeds,
  in both cases leaving the store as it was; the redis backend's
  \<open>CreateWorkflowInstance\<close> takes the failing policy, returns that error, and leaves the
  whole backend unchanged: no pending event is appended and no task is enqueued.
\<close>

theorem CreateWorkflowInstance_duplicate_fails:
  assumes "rdb rb (instanceKey env (InstanceID (WorkflowInstance event))) = Some v"
    and "json_Marshal_instanceState env
           \<lparr>Instance = Some (WorkflowInstance event), State = WorkflowStateActive,
            CreatedAt = time_Now env, CompletedAt = None\<rparr> = Inr b"
    and "net env CmdSetNX = None"
  shows "createInstance env (rdb rb) (WorkflowInstance event) False
           = (Some (ErrorNew ''workflow instance already exists''), rdb rb)
       \<and> createInstance env (rdb rb) (WorkflowInstance event) True = (None, rdb rb)
       \<and> redisBackend_CreateWorkflowInstance env rb event
           = (Some (ErrorNew ''workflow instance already exists''), rb)"
proof -
  have f: "createInstance env (rdb rb) (WorkflowInstance event) False
             = (Some (ErrorNew ''workflow instance already exists''), rdb rb)"
    using createInstance_duplicate_result [where db = "rdb rb" and ign = False, OF assms]
    by simp
  have t: "createInstance env (rdb rb) (WorkflowInstance event) True = (None, rdb rb)"
    using createInstance_duplicate_result [where db = "rdb rb" and ign = True, OF assms]
    by simp
  from f t CreateWorkflowInstance_failure [OF f] show ?thesis by simp
qed

theorem CreateWorkflowInstance_duplicate_fails_witness:
  "rdb rb_taken (instanceKey env0 (InstanceID (WorkflowInstance event0)))
     = Some (RString ''{state}'')
   \<and> createInstance env0 (rdb rb_taken) instance0 False
     = (Some (ErrorNew ''workflow instance already exists''), rdb rb_taken)
   \<and> createInstance env0 (rdb rb_taken) instance0 True = (None, rdb rb_taken)
   \<and> redisBackend_CreateWorkflowInstance env0 rb_taken event0
       = (Some (ErrorNew ''workflow instance already exists''), rb_taken)"
proof -
  have k: "rdb rb_taken (instanceKey env0 (InstanceID (WorkflowInstance event0)))
             = Some (RString ''{state}'')"
    by (simp add: rb_taken_def env0_def event0_def instance0_def)
  have m: "json_Marshal_instanceState env0
             \<lparr>Instance = Some (WorkflowInstance event0), State = WorkflowStateActive,
              CreatedAt = time_Now env0, CompletedAt = None\<rparr> = Inr ''{state}''"
    by (simp add: env0_def)
  have n: "net env0 CmdSetNX = None"
    by (simp add: env0_def)
  have e: "WorkflowInstance event0 = instance0"
    by (simp add: event0_def)
  show ?thesis
    using CreateWorkflowInstance_duplicate_fails [OF k m n] e k by simp
qed

text \<open>
  C9. Whenever \<open>readInstance\<close> fails, the redis backend's \<open>GetWorkflowInstanceState\<close>
  returns the state Active together with that error; in particular, for an instance id
  whose key holds nothing (the connection carrying the command) it returns Active with
  the error "could not read instance" wrapping go-redis's \<open>redis.Nil\<close>.
\<close>

theorem GetWorkflowInstanceState_read_failure:
  "(readInstance env (rdb rb) (InstanceID instance) = Inl err \<longrightarrow>
      redisBackend_GetWorkflowInstanceState env rb instance = (WorkflowStateActive, Some err))
   \<and> (net env CmdGet = None \<and> rdb rb (instanceKey env (InstanceID instance)) = None \<longrightarrow>
      redisBackend_GetWorkflowInstanceState env rb instance
        = (WorkflowStateActive, Some (Wrap ''could not read instance'' redis_Nil)))"
  by (simp add: redisBackend_GetWorkflowInstanceState_def readInstance_def Get_def Let_def)

theorem GetWorkflowInstanceState_read_failure_witness:
  "readInstance env0 (rdb rb_taken) (InstanceID instance0)
     = Inl (Wrap ''could not unmarshal instance state'' (External ''invalid character''))
   \<and> redisBackend_GetWorkflowInstanceState env0 rb_taken instance0
     = (WorkflowStateActive,
        Some (Wrap ''could not unmarshal instance state'' (External ''invalid character'')))
   \<and> net env0 CmdGet = None
   \<and> rdb rb_empty (instanceKey env0 (InstanceID instance0)) = None
   \<and> redisBackend_GetWorkflowInstanceState env0 rb_empty instance0
     = (WorkflowStateActive, Some (Wrap ''could not read instance'' redis_Nil))"
proof -
  have r: "readInstance env0 (rdb rb_taken) (InstanceID instance0)
             = Inl (Wrap ''could not unmarshal instance state'' (External ''invalid character''))"
    by (simp add: readInstance_def Get_def env0_def rb_taken_def instance0_def)
  have n: "net env0 CmdGet = None"
    by (simp add: env0_def)
  have k: "rdb rb_empty (instanceKey env0 (InstanceID instance0)) = None"
    by (simp add: rb_empty_def)
  show ?thesis
    using r n k
      GetWorkflowInstanceState_read_failure
        [of env0 rb_taken instance0
            "Wrap ''could not unmarshal instance state'' (External ''invalid character'')"]
      GetWorkflowInstanceState_read_failure [of env0 rb_empty instance0 redis_Nil]
    by simp
qed

section \<open>Theorems: package client\<close>

text \<open>
  C1. The claim is that the backend operation CancelWorkflowInstance appends the
  cancellation event to the pending queue and returns without panicking, the redis
  backend included. The code does otherwise: for every backend value and every instance
  the redis backend's \<open>CancelWorkflowInstance\<close> panics with "unimplemented", and so does
  the client's \<open>CancelWorkflowInstance\<close> over any backend whose cancel method is the
  redis one (which takes no event and so drops the one the client built). Nothing is
  appended.
\<close>

theorem redisBackend_CancelWorkflowInstance_panics:
  "redisBackend_CancelWorkflowInstance rb instance = Panic ''unimplemented''
   \<and> client_CancelWorkflowInstance now
        \<lparr>backend = b\<lparr>Backend_CancelWorkflowInstance :=
                         (\<lambda>i cancel_event s.
                            redisBackend_CancelWorkflowInstance s i)\<rparr>,
         clock = t\<rparr> instance rb
       = Panic ''unimplemented''"
  by (simp add: redisBackend_CancelWorkflowInstance_def client_CancelWorkflowInstance_def)

text \<open>
  C7. \<open>SignalWorkflow\<close> converts the argument with the backend's converter. If the
  conversion fails it returns the error wrapped as "converting arguments" and the
  backend's store is untouched. Otherwise its result and its effect on the store are
  those of exactly one call of the backend's \<open>SignalWorkflow\<close> with the given instance
  id and a pending event of type SignalReceived whose attributes are the given name and
  the converted payload.
\<close>

theorem client_SignalWorkflow_submits_signal_event:
  "(\<forall>err. Converter_To (backend c) arg = Inl err \<longrightarrow>
      client_SignalWorkflow c instanceID name arg s
        = (Some (Wrap ''converting arguments'' err), s))
   \<and> (\<forall>input. Converter_To (backend c) arg = Inr input \<longrightarrow>
        (\<exists>signalEvent.
           Type signalEvent = EventType_SignalReceived
         \<and> Attributes signalEvent = SignalReceivedAttributes name input
         \<and> Timestamp signalEvent = clock c
         \<and> ScheduleEventID signalEvent = None
         \<and> client_SignalWorkflow c instanceID name arg s
             = Backend_SignalWorkflow (backend c) instanceID signalEvent s))"
proof (intro conjI allI impI)
  fix err
  assume "Converter_To (backend c) arg = Inl err"
  then show "client_SignalWorkflow c instanceID name arg s
               = (Some (Wrap ''converting arguments'' err), s)"
    by (simp add: client_SignalWorkflow_def)
next
  fix input
  assume conv: "Converter_To (backend c) arg = Inr input"
  let ?ev = "NewPendingEvent (clock c) EventType_SignalReceived
               (SignalReceivedAttributes name input) []"
  have "client_SignalWorkflow c instanceID name arg s
          = Backend_SignalWorkflow (backend c) instanceID ?ev s"
    using conv
    by (cases "Backend_SignalWorkflow (backend c) instanceID ?ev s")
       (auto simp: client_SignalWorkflow_def Let_def split: option.splits)
  moreover have "Type ?ev = EventType_SignalReceived"
    and "Attributes ?ev = SignalReceivedAttributes name input"
    and "Timestamp ?ev = clock c"
    and "ScheduleEventID ?ev = None"
    by (simp_all add: NewPendingEvent_def)
  ultimately show "\<exists>signalEvent.
           Type signalEvent = EventType_SignalReceived
         \<and> Attributes signalEvent = SignalReceivedAttributes name input
         \<and> Timestamp signalEvent = clock c
         \<and> ScheduleEventID signalEvent = None
         \<and> client_SignalWorkflow c instanceID name arg s
             = Backend_SignalWorkflow (backend c) instanceID signalEvent s"
    by blast
qed

theorem client_SignalWorkflow_submits_signal_event_witness:
  "Converter_To (backend client0) ''chan'' = Inl (External ''unsupported type'')
   \<and> client_SignalWorkflow client0 ''order-1'' ''go'' ''chan'' []
       = (Some (Wrap ''converting arguments'' (External ''unsupported type'')), [])
   \<and> Converter_To (backend client0) ''hi'' = Inr ''json:hi''
   \<and> (\<exists>signalEvent.
         Type signalEvent = EventType_SignalReceived
       \<and> Attributes signalEvent = SignalReceivedAttributes ''go'' ''json:hi''
       \<and> client_SignalWorkflow client0 ''order-1'' ''go'' ''hi'' []
           = (None, [SignalCall ''order-1'' signalEvent]))"
proof -
  have bad: "Converter_To (backend client0) ''chan'' = Inl (External ''unsupported type'')"
    by (simp add: client0_def recorder_def)
  have good: "Converter_To (backend client0) ''hi'' = Inr ''json:hi''"
    by (simp add: client0_def recorder_def)
  have sig: "Backend_SignalWorkflow (backend client0) i e s = (None, s @ [SignalCall i e])"
    for i e s
    by (simp add: client0_def recorder_def)
  show ?thesis
    using bad good
      client_SignalWorkflow_submits_signal_event [of client0 "''chan''" "''order-1''" "''go''" "[]"]
      client_SignalWorkflow_submits_signal_event [of client0 "''hi''" "''order-1''" "''go''" "[]"]
    by (auto simp: sig)
qed



text \<open>
  C8. \<open>CreateWorkflowInstance\<close> returns the error of the argument check, or the
  conversion error wrapped as "converting arguments", without calling the backend: the
  store is untouched. Otherwise it calls the backend's \<open>CreateWorkflowInstance\<close> exactly
  once, with the instance made of the caller's instance id and the string
  \<open>uuid.NewString()\<close> gave, and with a start event of type WorkflowExecutionStarted
  whose attributes carry the workflow's name and the converted inputs; it returns that
  instance if the backend accepts and the backend's error wrapped otherwise.
\<close>

theorem client_CreateWorkflowInstance_start_event:
  "(\<forall>err. ParamsMatch env wflow args = Some err \<longrightarrow>
      client_CreateWorkflowInstance env c options wflow args s = (Inl err, s))
   \<and> (\<forall>err. ParamsMatch env wflow args = None
            \<and> ArgsToInputs env (Converter_To (backend c)) args = Inl err \<longrightarrow>
      client_CreateWorkflowInstance env c options wflow args s
        = (Inl (Wrap ''converting arguments'' err), s))
   \<and> (\<forall>inputs. ParamsMatch env wflow args = None
            \<and> ArgsToInputs env (Converter_To (backend c)) args = Inr inputs \<longrightarrow>
        (\<exists>startedEvent metadata.
           Type startedEvent = EventType_WorkflowExecutionStarted
         \<and> Attributes startedEvent
             = ExecutionStartedAttributes metadata (fn_Name env wflow) inputs
         \<and> Timestamp startedEvent = clock c
         \<and> client_CreateWorkflowInstance env c options wflow args s
             = (case Backend_CreateWorkflowInstance (backend c)
                       \<lparr>InstanceID = options_InstanceID options,
                        ExecutionID = uuid_NewString env,
                        ParentInstanceID = None\<rparr> startedEvent s of
                  (Some err, s') \<Rightarrow> (Inl (Wrap ''creating workflow instance'' err), s')
                | (None, s') \<Rightarrow>
                    (Inr \<lparr>InstanceID = options_InstanceID options,
                          ExecutionID = uuid_NewString env,
                          ParentInstanceID = None\<rparr>, s'))))"
proof (intro conjI allI impI)
  fix err
  assume "ParamsMatch env wflow args = Some err"
  then show "client_CreateWorkflowInstance env c options wflow args s = (Inl err, s)"
    by (simp add: client_CreateWorkflowInstance_def)
next
  fix err
  assume "ParamsMatch env wflow args = None
            \<and> ArgsToInputs env (Converter_To (backend c)) args = Inl err"
  then show "client_CreateWorkflowInstance env c options wflow args s
               = (Inl (Wrap ''converting arguments'' err), s)"
    by (simp add: client_CreateWorkflowInstance_def)
next
  fix inputs
  assume ok: "ParamsMatch env wflow args = None
            \<and> ArgsToInputs env (Converter_To (backend c)) args = Inr inputs"
  let ?md = "Some (fold (\<lambda>propagator m. propagator m) (ContextPropagators (backend c)) Map.empty)"
  let ?ev = "NewPendingEvent (clock c) EventType_WorkflowExecutionStarted
               (ExecutionStartedAttributes ?md (fn_Name env wflow) inputs) []"
  let ?wfi = "\<lparr>InstanceID = options_InstanceID options, ExecutionID = uuid_NewString env,
               ParentInstanceID = None\<rparr>"
  have "client_CreateWorkflowInstance env c options wflow args s
          = (case Backend_CreateWorkflowInstance (backend c) ?wfi ?ev s of
               (Some err, s') \<Rightarrow> (Inl (Wrap ''creating workflow instance'' err), s')
             | (None, s') \<Rightarrow> (Inr ?wfi, s'))"
    using ok
    by (simp add: client_CreateWorkflowInstance_def NewWorkflowInstance_def Let_def)
  moreover have "Type ?ev = EventType_WorkflowExecutionStarted"
    and "Attributes ?ev = ExecutionStartedAttributes ?md (fn_Name env wflow) inputs"
    and "Timestamp ?ev = clock c"
    by (simp_all add: NewPendingEvent_def)
  ultimately show "\<exists>startedEvent metadata.
           Type startedEvent = EventType_WorkflowExecutionStarted
         \<and> Attributes startedEvent
             = ExecutionStartedAttributes metadata (fn_Name env wflow) inputs
         \<and> Timestamp startedEvent = clock c
         \<and> client_CreateWorkflowInstance env c options wflow args s
             = (case Backend_CreateWorkflowInstance (backend c)
                       \<lparr>InstanceID = options_InstanceID options,
                        ExecutionID = uuid_NewString env,
                        ParentInstanceID = None\<rparr> startedEvent s of
                  (Some err, s') \<Rightarrow> (Inl (Wrap ''creating workflow instance'' err), s')
                | (None, s') \<Rightarrow>
                    (Inr \<lparr>InstanceID = options_InstanceID options,
                          ExecutionID = uuid_NewString env,
                          ParentInstanceID = None\<rparr>, s'))"
    by blast
qed

theorem client_CreateWorkflowInstance_start_event_witness:
  "ParamsMatch cenv0 ''Add'' [''2''] = Some (ErrorNew ''mismatched argument count'')
   \<and> client_CreateWorkflowInstance cenv0 client0 \<lparr>options_InstanceID = ''order-1''\<rparr>
        ''Add'' [''2''] []
       = (Inl (ErrorNew ''mismatched argument count''), [])
   \<and> ParamsMatch cenv0 ''Add'' [''2'', ''chan''] = None
   \<and> ArgsToInputs cenv0 (Converter_To (backend client0)) [''2'', ''chan'']
       = Inl (Wrap ''converting input'' (External ''unsupported type''))
   \<and> client_CreateWorkflowInstance cenv0 client0 \<lparr>options_InstanceID = ''order-1''\<rparr>
        ''Add'' [''2'', ''chan''] []
       = (Inl (Wrap ''converting arguments'' (Wrap ''converting input'' (External ''unsupported type''))), [])
   \<and> ParamsMatch cenv0 ''Add'' [''2'', ''3''] = None
   \<and> ArgsToInputs cenv0 (Converter_To (backend client0)) [''2'', ''3'']
       = Inr [''json:2'', ''json:3'']
   \<and> (\<exists>startedEvent metadata.
         Type startedEvent = EventType_WorkflowExecutionStarted
       \<and> Attributes startedEvent
           = ExecutionStartedAttributes metadata ''Add'' [''json:2'', ''json:3'']
       \<and> client_CreateWorkflowInstance cenv0 client0 \<lparr>options_InstanceID = ''order-1''\<rparr>
            ''Add'' [''2'', ''3''] []
           = (Inr \<lparr>InstanceID = ''order-1'', ExecutionID = ''3f2c'', ParentInstanceID = None\<rparr>,
              [CreateCall
                 \<lparr>InstanceID = ''order-1'', ExecutionID = ''3f2c'', ParentInstanceID = None\<rparr>
                 startedEvent]))"
proof -
  have to: "Converter_To (backend client0)
              = (\<lambda>v. if v = ''chan'' then Inl (External ''unsupported type'')
                      else Inr (''json:'' @ v))"
    by (simp add: client0_def recorder_def)
  have p1: "ParamsMatch cenv0 ''Add'' [''2''] = Some (ErrorNew ''mismatched argument count'')"
    by (simp add: cenv0_def)
  have p2: "ParamsMatch cenv0 ''Add'' [''2'', ''chan''] = None"
    by (simp add: cenv0_def)
  have a2: "ArgsToInputs cenv0 (Converter_To (backend client0)) [''2'', ''chan'']
              = Inl (Wrap ''converting input'' (External ''unsupported type''))"
    by (simp add: cenv0_def to)
  have p3: "ParamsMatch cenv0 ''Add'' [''2'', ''3''] = None"
    by (simp add: cenv0_def)
  have a3: "ArgsToInputs cenv0 (Converter_To (backend client0)) [''2'', ''3'']
              = Inr [''json:2'', ''json:3'']"
    by (simp add: cenv0_def to)
  have cr: "Backend_CreateWorkflowInstance (backend client0) i e s = (None, s @ [CreateCall i e])"
    for i e s
    by (simp add: client0_def recorder_def)
  have nm: "fn_Name cenv0 ''Add'' = ''Add''" and uu: "uuid_NewString cenv0 = ''3f2c''"
    by (simp_all add: cenv0_def)
  show ?thesis
    using p1 p2 a2 p3 a3
      client_CreateWorkflowInstance_start_event
        [of cenv0 "''Add''" "[''2'']" client0 "\<lparr>options_InstanceID = ''order-1''\<rparr>" "[]"]
      client_CreateWorkflowInstance_start_event
        [of cenv0 "''Add''" "[''2'', ''chan'']" client0 "\<lparr>options_InstanceID = ''order-1''\<rparr>" "[]"]
      client_CreateWorkflowInstance_start_event
        [of cenv0 "''Add''" "[''2'', ''3'']" client0 "\<lparr>options_InstanceID = ''order-1''\<rparr>" "[]"]
    by (auto simp: cr nm uu)
qed

section \<open>Theorems: WaitForWorkflowInstance\<close>

lemma poll_Cons_running:
  "observes_running b i s \<Longrightarrow> poll b i (s # ss) = poll b i ss"
  by (cases "Backend_GetWorkflowInstanceState b i s") (auto simp: observes_running_def)

lemma poll_Cons_final:
  "observes_final b i s \<Longrightarrow> poll b i (s # ss) = None"
  by (cases "Backend_GetWorkflowInstanceState b i s") (auto simp: observes_final_def)

lemma poll_Cons_fails:
  "poll_fails b i s err \<Longrightarrow> poll b i (s # ss) = Some (Wrap ''getting workflow state'' err)"
  by (cases "Backend_GetWorkflowInstanceState b i s") (auto simp: poll_fails_def)

lemma poll_cases:
  "observes_running b i s \<or> observes_final b i s \<or> (\<exists>err. poll_fails b i s err)"
  by (cases "Backend_GetWorkflowInstanceState b i s")
     (auto simp: observes_running_def observes_final_def poll_fails_def)

lemma poll_append_running:
  "\<forall>x\<in>set pre. observes_running b i x \<Longrightarrow> poll b i (pre @ ss) = poll b i ss"
  by (induction pre) (simp_all add: poll_Cons_running del: poll.simps(2))

lemma poll_result:
  "(\<forall>x\<in>set ss. observes_running b i x)
     \<and> poll b i ss = Some (ErrorNew ''workflow did not finish in specified timeout'')
   \<or> (\<exists>pre s post. ss = pre @ s # post \<and> (\<forall>x\<in>set pre. observes_running b i x)
         \<and> observes_final b i s \<and> poll b i ss = None)
   \<or> (\<exists>pre s post err. ss = pre @ s # post \<and> (\<forall>x\<in>set pre. observes_running b i x)
         \<and> poll_fails b i s err
         \<and> poll b i ss = Some (Wrap ''getting workflow state'' err))"
proof (induction ss)
  case Nil
  then show ?case by simp
next
  case (Cons a ss)
  consider (run) "observes_running b i a" | (fin) "observes_final b i a"
    | (err) e where "poll_fails b i a e"
    using poll_cases [of b i a] by blast
  then show ?case
  proof cases
    case run
    from Cons.IH show ?thesis
    proof (elim disjE exE conjE)
      assume "\<forall>x\<in>set ss. observes_running b i x"
        and "poll b i ss = Some (ErrorNew ''workflow did not finish in specified timeout'')"
      with run show ?thesis by (simp add: poll_Cons_running del: poll.simps(2))
    next
      fix pre s post
      assume "ss = pre @ s # post" "\<forall>x\<in>set pre. observes_running b i x"
        "observes_final b i s" "poll b i ss = None"
      with run have "a # ss = (a # pre) @ s # post \<and> (\<forall>x\<in>set (a # pre). observes_running b i x)
          \<and> observes_final b i s \<and> poll b i (a # ss) = None"
        by (simp add: poll_Cons_running del: poll.simps(2))
      then show ?thesis by blast
    next
      fix pre s post err
      assume "ss = pre @ s # post" "\<forall>x\<in>set pre. observes_running b i x"
        "poll_fails b i s err" "poll b i ss = Some (Wrap ''getting workflow state'' err)"
      with run have "a # ss = (a # pre) @ s # post \<and> (\<forall>x\<in>set (a # pre). observes_running b i x)
          \<and> poll_fails b i s err
          \<and> poll b i (a # ss) = Some (Wrap ''getting workflow state'' err)"
        by (simp add: poll_Cons_running del: poll.simps(2))
      then show ?thesis by blast
    qed
  next
    case fin
    then have "a # ss = [] @ a # ss \<and> (\<forall>x\<in>set []. observes_running b i x)
        \<and> observes_final b i a \<and> poll b i (a # ss) = None"
      by (simp add: poll_Cons_final del: poll.simps(2))
    then show ?thesis by blast
  next
    case err
    then have "a # ss = [] @ a # ss \<and> (\<forall>x\<in>set []. observes_running b i x)
        \<and> poll_fails b i a e \<and> poll b i (a # ss) = Some (Wrap ''getting workflow state'' e)"
      by (simp add: poll_Cons_fails del: poll.simps(2))
    then show ?thesis by blast
  qed
qed

lemma poll_None_iff:
  "poll b i ss = None \<longleftrightarrow>
     (\<exists>pre s post. ss = pre @ s # post \<and> (\<forall>x\<in>set pre. observes_running b i x)
        \<and> observes_final b i s)"
proof
  assume "poll b i ss = None"
  with poll_result [of ss b i] show "\<exists>pre s post. ss = pre @ s # post
      \<and> (\<forall>x\<in>set pre. observes_running b i x) \<and> observes_final b i s"
    by auto
next
  assume "\<exists>pre s post. ss = pre @ s # post \<and> (\<forall>x\<in>set pre. observes_running b i x)
        \<and> observes_final b i s"
  then show "poll b i ss = None"
    by (auto simp: poll_append_running poll_Cons_final simp del: poll.simps(2))
qed

lemma poll_fails_iff:
  "poll b i ss = Some (Wrap ''getting workflow state'' err) \<longleftrightarrow>
     (\<exists>pre s post. ss = pre @ s # post \<and> (\<forall>x\<in>set pre. observes_running b i x)
        \<and> poll_fails b i s err)"
proof
  assume "poll b i ss = Some (Wrap ''getting workflow state'' err)"
  with poll_result [of ss b i] show "\<exists>pre s post. ss = pre @ s # post
      \<and> (\<forall>x\<in>set pre. observes_running b i x) \<and> poll_fails b i s err"
    by auto
next
  assume "\<exists>pre s post. ss = pre @ s # post \<and> (\<forall>x\<in>set pre. observes_running b i x)
        \<and> poll_fails b i s err"
  then show "poll b i ss = Some (Wrap ''getting workflow state'' err)"
    by (auto simp: poll_append_running poll_Cons_fails simp del: poll.simps(2))
qed

lemma poll_timeout_iff:
  "poll b i ss = Some (ErrorNew ''workflow did not finish in specified timeout'') \<longleftrightarrow>
     (\<forall>x\<in>set ss. observes_running b i x)"
proof
  assume p: "poll b i ss = Some (ErrorNew ''workflow did not finish in specified timeout'')"
  with poll_result [of ss b i] show "\<forall>x\<in>set ss. observes_running b i x"
    by auto
next
  assume "\<forall>x\<in>set ss. observes_running b i x"
  then have "poll b i (ss @ []) = poll b i []"
    by (rule poll_append_running)
  then show "poll b i ss = Some (ErrorNew ''workflow did not finish in specified timeout'')"
    by simp
qed

text \<open>
  The outcome of \<open>WaitForWorkflowInstance\<close> over the ticks it is given. When the polls
  happen is the ticker's doing, on a real clock, and is not part of this model: nothing
  here says how far apart the ticks are or how long they go on. What the code fixes is
  the configuration the ticker is built from (initial interval 1 ms, maximum interval
  1 s, multiplier 1.5, maximum elapsed time the timeout, 20 s when the timeout given is
  zero) and the value returned: nil exactly when some poll observes Finished or
  ContinuedAsNew, every earlier poll having answered without error a state that is not
  final; the backend's error wrapped as "getting workflow state" exactly when some poll
  fails with that error, every earlier poll having answered without error a state that
  is not final; the did-not-finish error exactly when every poll until the ticker
  closes its channel answers without error a state that is not final.
\<close>

lemma WaitForWorkflowInstance_outcome:
  "\<exists>b. InitialInterval b = 1000000 \<and> MaxInterval b = 1000000000 \<and> Multiplier b = 3 / 2
      \<and> MaxElapsedTime b = (if timeout = 0 then 20000000000 else timeout)
      \<and> (client_WaitForWorkflowInstance ticker c inst timeout = None \<longleftrightarrow>
           (\<exists>pre s post. ticker b = pre @ s # post
              \<and> (\<forall>x\<in>set pre. observes_running (backend c) inst x)
              \<and> observes_final (backend c) inst s))
      \<and> (\<forall>err. client_WaitForWorkflowInstance ticker c inst timeout
                  = Some (Wrap ''getting workflow state'' err) \<longleftrightarrow>
           (\<exists>pre s post. ticker b = pre @ s # post
              \<and> (\<forall>x\<in>set pre. observes_running (backend c) inst x)
              \<and> poll_fails (backend c) inst s err))
      \<and> (client_WaitForWorkflowInstance ticker c inst timeout
            = Some (ErrorNew ''workflow did not finish in specified timeout'') \<longleftrightarrow>
           (\<forall>x\<in>set (ticker b). observes_running (backend c) inst x))"
proof -
  let ?b = "\<lparr>InitialInterval = Millisecond * 1, MaxInterval = Second * 1,
             Multiplier = 3 / 2, RandomizationFactor = 1 / 2,
             MaxElapsedTime = (if timeout = 0 then Second * 20 else timeout)\<rparr>"
  have w: "client_WaitForWorkflowInstance ticker c inst timeout
             = poll (backend c) inst (ticker ?b)"
    by (simp add: client_WaitForWorkflowInstance_def Let_def)
  have cfg: "InitialInterval ?b = 1000000" "MaxInterval ?b = 1000000000" "Multiplier ?b = 3 / 2"
    "MaxElapsedTime ?b = (if timeout = 0 then 20000000000 else timeout)"
    by (simp_all add: Millisecond_def Second_def)
  show ?thesis
    by (rule exI [of _ ?b], unfold w, intro conjI allI)
       (rule cfg poll_None_iff poll_fails_iff poll_timeout_iff)+
qed

text \<open>The three outcomes on the concrete client.\<close>

lemma WaitForWorkflowInstance_outcome_example:
  "observes_running (backend client1) instance0 running0
   \<and> observes_final (backend client1) instance0 finished0
   \<and> poll_fails (backend client1) instance0 failing0 (External ''connection refused'')
   \<and> client_WaitForWorkflowInstance ticks_finishing client1 instance0 0 = None
   \<and> client_WaitForWorkflowInstance ticks_failing client1 instance0 0
       = Some (Wrap ''getting workflow state'' (External ''connection refused''))
   \<and> client_WaitForWorkflowInstance ticks_running client1 instance0 5000000
       = Some (ErrorNew ''workflow did not finish in specified timeout'')"
proof -
  have run: "observes_running (backend client1) instance0 running0"
    by (simp add: observes_running_def client1_def snapshots_def running0_def)
  have fin: "observes_final (backend client1) instance0 finished0"
    by (simp add: observes_final_def client1_def snapshots_def finished0_def)
  have err: "poll_fails (backend client1) instance0 failing0 (External ''connection refused'')"
    by (simp add: poll_fails_def client1_def snapshots_def failing0_def)
  have d1: "\<exists>pre s post. ticks_finishing b = pre @ s # post
              \<and> (\<forall>x\<in>set pre. observes_running (backend client1) instance0 x)
              \<and> observes_final (backend client1) instance0 s" for b
    using run fin
    by (intro exI [of _ "[running0]"] exI [of _ finished0] exI [of _ "[]"])
       (simp add: ticks_finishing_def)
  have d2: "\<exists>pre s post. ticks_failing b = pre @ s # post
              \<and> (\<forall>x\<in>set pre. observes_running (backend client1) instance0 x)
              \<and> poll_fails (backend client1) instance0 s (External ''connection refused'')" for b
    using run err
    by (intro exI [of _ "[running0]"] exI [of _ failing0] exI [of _ "[finished0]"])
       (simp add: ticks_failing_def)
  have d3: "\<forall>x\<in>set (ticks_running b). observes_running (backend client1) instance0 x" for b
    using run by (simp add: ticks_running_def)
  have r1: "client_WaitForWorkflowInstance ticks_finishing client1 instance0 0 = None"
    using WaitForWorkflowInstance_outcome [of 0 ticks_finishing client1 instance0] d1 by blast
  have r2: "client_WaitForWorkflowInstance ticks_failing client1 instance0 0
              = Some (Wrap ''getting workflow state'' (External ''connection refused''))"
    using WaitForWorkflowInstance_outcome [of 0 ticks_failing client1 instance0] d2 by blast
  have r3: "client_WaitForWorkflowInstance ticks_running client1 instance0 5000000
              = Some (ErrorNew ''workflow did not finish in specified timeout'')"
    using WaitForWorkflowInstance_outcome [of 5000000 ticks_running client1 instance0] d3 by blast
  from run fin err r1 r2 r3 show ?thesis by simp
qed

text \<open>
  A poll that fails ends the wait at once: with a backend that cannot be reached at the
  first tick no poll observes a final state, and the result is neither nil nor the
  did-not-finish error but the backend's error, wrapped.
\<close>

lemma WaitForWorkflowInstance_failing_poll:
  "\<not> observes_final (backend client1) instance0 failing0
   \<and> client_WaitForWorkflowInstance ticks_unreachable client1 instance0 0 \<noteq> None
   \<and> client_WaitForWorkflowInstance ticks_unreachable client1 instance0 0
       \<noteq> Some (ErrorNew ''workflow did not finish in specified timeout'')
   \<and> client_WaitForWorkflowInstance ticks_unreachable client1 instance0 0
       = Some (Wrap ''getting workflow state'' (External ''connection refused''))"
  by (simp add: client_WaitForWorkflowInstance_def client1_def snapshots_def failing0_def
                observes_final_def ticks_unreachable_def)

section \<open>Theorems: GetWorkflowResult\<close>

lemma scan_skip:
  "\<not> is_result_type (Type e) \<Longrightarrow> scan From z (e # es) = scan From z es"
  by (cases "Type e") (simp_all add: is_result_type_def)

lemma scan_decides:
  "is_result_type (Type e) \<Longrightarrow> scan From z (e # es) = scan From z [e]"
  by (cases "Type e") (simp_all add: is_result_type_def)

lemma scan_append_skip:
  "\<forall>x\<in>set xs. \<not> is_result_type (Type x) \<Longrightarrow> scan From z (xs @ ys) = scan From z ys"
  by (induction xs) (simp_all add: scan_skip del: scan.simps)

lemma scan_none:
  assumes "\<forall>x\<in>set xs. \<not> is_result_type (Type x)"
  shows "scan From z xs
           = Return (z, Some (ErrorNew ''workflow finished, but could not find result event''))"
proof -
  have "scan From z (xs @ []) = scan From z []"
    using assms by (rule scan_append_skip)
  then show ?thesis by simp
qed

lemma scan_latest:
  assumes "\<forall>x\<in>set after. \<not> is_result_type (Type x)" and "is_result_type (Type e)"
  shows "scan From z (rev (before @ e # after)) = scan From z [e]"
proof -
  have "\<forall>x\<in>set (rev after). \<not> is_result_type (Type x)"
    using assms(1) by simp
  then have "scan From z (rev after @ e # rev before) = scan From z (e # rev before)"
    by (rule scan_append_skip)
  also have "\<dots> = scan From z [e]"
    using assms(2) by (rule scan_decides)
  finally show ?thesis by simp
qed

lemma GetWorkflowResult_scan:
  assumes "client_WaitForWorkflowInstance ticker c inst timeout = None"
    and "Backend_GetWorkflowInstanceHistory (backend c) inst None s = Inr h"
  shows "GetWorkflowResult ticker zero c inst timeout s
           = scan (Converter_From (backend c)) zero (rev h)"
  using assms by (simp add: GetWorkflowResult_def)

text \<open>Facts about the concrete client and histories.\<close>

lemma client1_wait:
  "client_WaitForWorkflowInstance ticks_finishing client1 instance0 0 = None"
  by (simp add: client_WaitForWorkflowInstance_def ticks_finishing_def client1_def
                snapshots_def running0_def finished0_def)

lemma client1_history:
  "Backend_GetWorkflowInstanceHistory (backend client1) instance0 None (store_with h) = Inr h"
  by (simp add: client1_def snapshots_def store_with_def)

lemma client1_From:
  "Converter_From (backend client1) ''json:5'' = Inr ''5''"
  by (simp add: client1_def snapshots_def recorder_def)

lemma ev_task_not_result:
  "\<forall>x\<in>set [ev_task]. \<not> is_result_type (Type x)"
  by (simp add: ev_task_def NewPendingEvent_def is_result_type_def)

lemma history0_not_result:
  "\<forall>x\<in>set history0. \<not> is_result_type (Type x)"
  by (simp add: history0_def NewPendingEvent_def is_result_type_def)

text \<open>
  C4. Let the wait succeed and the history be read, and let \<open>e\<close> be the latest event
  of the history whose type is Finished, ContinuedAsNew, Canceled or Terminated (no
  event after it has such a type). If \<open>e\<close> is of type Canceled, \<open>GetWorkflowResult\<close>
  returns the zero value and \<open>ErrWorkflowCanceled\<close>; if Terminated, the zero value and
  \<open>ErrWorkflowTerminated\<close>; if Finished with completion attributes that carry an
  error, the zero value and that workflow error; if Finished with completion attributes
  that carry no error and a result the converter decodes, the decoded value and no
  error.
\<close>

theorem GetWorkflowResult_latest_result_event:
  assumes "client_WaitForWorkflowInstance ticker c inst timeout = None"
    and "Backend_GetWorkflowInstanceHistory (backend c) inst None s = Inr h"
    and "h = before @ e # after"
    and "\<forall>x\<in>set after. \<not> is_result_type (Type x)"
  shows "(Type e = EventType_WorkflowExecutionCanceled \<longrightarrow>
            GetWorkflowResult ticker zero c inst timeout s
              = Return (zero, Some ErrWorkflowCanceled))
       \<and> (Type e = EventType_WorkflowExecutionTerminated \<longrightarrow>
            GetWorkflowResult ticker zero c inst timeout s
              = Return (zero, Some ErrWorkflowTerminated))
       \<and> (\<forall>result werr.
            Type e = EventType_WorkflowExecutionFinished
            \<and> Attributes e = ExecutionCompletedAttributes result (Some werr) \<longrightarrow>
            GetWorkflowResult ticker zero c inst timeout s
              = Return (zero, Some (ToError werr)))
       \<and> (\<forall>result r.
            Type e = EventType_WorkflowExecutionFinished
            \<and> Attributes e = ExecutionCompletedAttributes result None
            \<and> Converter_From (backend c) result = Inr r \<longrightarrow>
            GetWorkflowResult ticker zero c inst timeout s = Return (r, None))"
proof -
  have g: "GetWorkflowResult ticker zero c inst timeout s
             = scan (Converter_From (backend c)) zero (rev (before @ e # after))"
    using GetWorkflowResult_scan [OF assms(1,2)] assms(3) by simp
  have l: "is_result_type (Type e) \<Longrightarrow>
             GetWorkflowResult ticker zero c inst timeout s
               = scan (Converter_From (backend c)) zero [e]"
    unfolding g using assms(4) by (rule scan_latest)
  show ?thesis
  proof (intro conjI allI impI)
    assume t: "Type e = EventType_WorkflowExecutionCanceled"
    then have "is_result_type (Type e)" by (simp add: is_result_type_def)
    from l [OF this] t
    show "GetWorkflowResult ticker zero c inst timeout s = Return (zero, Some ErrWorkflowCanceled)"
      by simp
  next
    assume t: "Type e = EventType_WorkflowExecutionTerminated"
    then have "is_result_type (Type e)" by (simp add: is_result_type_def)
    from l [OF this] t
    show "GetWorkflowResult ticker zero c inst timeout s = Return (zero, Some ErrWorkflowTerminated)"
      by simp
  next
    fix result werr
    assume t: "Type e = EventType_WorkflowExecutionFinished
            \<and> Attributes e = ExecutionCompletedAttributes result (Some werr)"
    then have "is_result_type (Type e)" by (simp add: is_result_type_def)
    from l [OF this] t
    show "GetWorkflowResult ticker zero c inst timeout s = Return (zero, Some (ToError werr))"
      by simp
  next
    fix result r
    assume t: "Type e = EventType_WorkflowExecutionFinished
            \<and> Attributes e = ExecutionCompletedAttributes result None
            \<and> Converter_From (backend c) result = Inr r"
    then have "is_result_type (Type e)" by (simp add: is_result_type_def)
    from l [OF this] t
    show "GetWorkflowResult ticker zero c inst timeout s = Return (r, None)"
      by simp
  qed
qed

theorem GetWorkflowResult_latest_result_event_witness:
  "client_WaitForWorkflowInstance ticks_finishing client1 instance0 0 = None
   \<and> GetWorkflowResult ticks_finishing [] client1 instance0 0
        (store_with (history0 @ [ev_canceled, ev_task]))
       = Return ([], Some ErrWorkflowCanceled)
   \<and> GetWorkflowResult ticks_finishing [] client1 instance0 0
        (store_with (history0 @ [ev_terminated, ev_task]))
       = Return ([], Some ErrWorkflowTerminated)
   \<and> GetWorkflowResult ticks_finishing [] client1 instance0 0
        (store_with (history0 @ [ev_failed, ev_task]))
       = Return ([], Some (ToError ''boom''))
   \<and> GetWorkflowResult ticks_finishing [] client1 instance0 0
        (store_with (history0 @ [ev_finished, ev_task]))
       = Return (''5'', None)"
proof -
  have d: "history0 @ [e, ev_task] = history0 @ e # [ev_task]" for e
    by simp
  have "GetWorkflowResult ticks_finishing [] client1 instance0 0
          (store_with (history0 @ [ev_canceled, ev_task]))
        = Return ([], Some ErrWorkflowCanceled)"
    using GetWorkflowResult_latest_result_event
            [OF client1_wait client1_history d [of ev_canceled] ev_task_not_result,
             where zero = "[]"]
    by (simp add: ev_canceled_def NewPendingEvent_def)
  moreover have "GetWorkflowResult ticks_finishing [] client1 instance0 0
          (store_with (history0 @ [ev_terminated, ev_task]))
        = Return ([], Some ErrWorkflowTerminated)"
    using GetWorkflowResult_latest_result_event
            [OF client1_wait client1_history d [of ev_terminated] ev_task_not_result,
             where zero = "[]"]
    by (simp add: ev_terminated_def NewPendingEvent_def)
  moreover have "GetWorkflowResult ticks_finishing [] client1 instance0 0
          (store_with (history0 @ [ev_failed, ev_task]))
        = Return ([], Some (ToError ''boom''))"
    using GetWorkflowResult_latest_result_event
            [OF client1_wait client1_history d [of ev_failed] ev_task_not_result,
             where zero = "[]"]
    by (simp add: ev_failed_def NewPendingEvent_def)
  moreover have "GetWorkflowResult ticks_finishing [] client1 instance0 0
          (store_with (history0 @ [ev_finished, ev_task]))
        = Return (''5'', None)"
    using GetWorkflowResult_latest_result_event
            [OF client1_wait client1_history d [of ev_finished] ev_task_not_result,
             where zero = "[]"]
      client1_From
    by (simp add: ev_finished_def NewPendingEvent_def)
  ultimately show ?thesis
    using client1_wait by simp
qed

text \<open>
  C10. Let the wait succeed and the history be read. \<open>GetWorkflowResult\<close> decides on
  the first event of a result type met from the end of the history: whatever stands
  before it, and whatever events of other types stand after it, the outcome is that of
  the loop's body on this event alone. If the history holds no event of type Finished,
  ContinuedAsNew, Canceled or Terminated, it returns, without panicking, the zero value
  together with the error "workflow finished, but could not find result event".
\<close>

theorem GetWorkflowResult_scans_backwards:
  assumes "client_WaitForWorkflowInstance ticker c inst timeout = None"
    and "Backend_GetWorkflowInstanceHistory (backend c) inst None s = Inr h"
  shows "(\<forall>before e after.
            h = before @ e # after \<and> is_result_type (Type e)
            \<and> (\<forall>x\<in>set after. \<not> is_result_type (Type x)) \<longrightarrow>
            GetWorkflowResult ticker zero c inst timeout s
              = scan (Converter_From (backend c)) zero [e])
       \<and> ((\<forall>x\<in>set h. \<not> is_result_type (Type x)) \<longrightarrow>
            GetWorkflowResult ticker zero c inst timeout s
              = Return (zero,
                  Some (ErrorNew ''workflow finished, but could not find result event'')))"
proof (intro conjI allI impI)
  fix before e after
  assume a: "h = before @ e # after \<and> is_result_type (Type e)
            \<and> (\<forall>x\<in>set after. \<not> is_result_type (Type x))"
  then have "scan (Converter_From (backend c)) zero (rev (before @ e # after))
               = scan (Converter_From (backend c)) zero [e]"
    by (intro scan_latest) simp_all
  with a show "GetWorkflowResult ticker zero c inst timeout s
               = scan (Converter_From (backend c)) zero [e]"
    using GetWorkflowResult_scan [OF assms] by simp
next
  assume "\<forall>x\<in>set h. \<not> is_result_type (Type x)"
  then have "\<forall>x\<in>set (rev h). \<not> is_result_type (Type x)" by simp
  then have "scan (Converter_From (backend c)) zero (rev h)
               = Return (zero,
                   Some (ErrorNew ''workflow finished, but could not find result event''))"
    by (rule scan_none)
  then show "GetWorkflowResult ticker zero c inst timeout s
               = Return (zero,
                   Some (ErrorNew ''workflow finished, but could not find result event''))"
    using GetWorkflowResult_scan [OF assms] by simp
qed

theorem GetWorkflowResult_scans_backwards_witness:
  "client_WaitForWorkflowInstance ticks_finishing client1 instance0 0 = None
   \<and> is_result_type (Type ev_terminated)
   \<and> GetWorkflowResult ticks_finishing [] client1 instance0 0
        (store_with (history0 @ [ev_finished, ev_terminated, ev_task]))
       = Return ([], Some ErrWorkflowTerminated)
   \<and> GetWorkflowResult ticks_finishing [] client1 instance0 0 (store_with history0)
       = Return ([], Some (ErrorNew ''workflow finished, but could not find result event''))"
proof -
  have d: "history0 @ [ev_finished, ev_terminated, ev_task]
             = (history0 @ [ev_finished]) @ ev_terminated # [ev_task]"
    by simp
  have r: "is_result_type (Type ev_terminated)"
    by (simp add: ev_terminated_def NewPendingEvent_def is_result_type_def)
  have s: "scan (Converter_From (backend client1)) [] [ev_terminated]
             = Return ([], Some ErrWorkflowTerminated)"
    by (simp add: ev_terminated_def NewPendingEvent_def)
  have "GetWorkflowResult ticks_finishing [] client1 instance0 0
          (store_with (history0 @ [ev_finished, ev_terminated, ev_task]))
        = Return ([], Some ErrWorkflowTerminated)"
    using GetWorkflowResult_scans_backwards
            [OF client1_wait client1_history,
             of "history0 @ [ev_finished, ev_terminated, ev_task]" "[]"]
      d r s ev_task_not_result
    by metis
  moreover have "GetWorkflowResult ticks_finishing [] client1 instance0 0 (store_with history0)
        = Return ([], Some (ErrorNew ''workflow finished, but could not find result event''))"
    using GetWorkflowResult_scans_backwards [OF client1_wait client1_history, of history0 "[]"]
      history0_not_result
    by blast
  ultimately show ?thesis
    using client1_wait r by simp
qed

end
